theory Spec2Isabelle
  imports Main "HOL-Library.Sublist"
begin

section \<open>JavaScript values and errors\<close>

text \<open>
  The module \<^verbatim>\<open>index.js\<close> is a swig tag: \<^verbatim>\<open>parse\<close> filters the tokens of one tag
  invocation, \<^verbatim>\<open>compile\<close> turns the resulting argument list into a piece of JavaScript
  source, \<^verbatim>\<open>renderReactComponentToString\<close> is the render-time extension that the emitted
  source calls, and \<^verbatim>\<open>extendComponents\<close> fills the registry \<^verbatim>\<open>components\<close>.

  Values that template expressions evaluate to are modelled by \<open>jsval\<close>. Numbers are
  restricted to the safe integers, those of magnitude below \<open>2^53\<close>: each of them is a
  double, and \<^verbatim>\<open>Number::toString\<close> writes it in plain decimal digits (the exponent form
  starts at \<open>10^21\<close>). An object is the list of its own enumerable string-keyed
  properties in enumeration order, with \<^verbatim>\<open>Object.prototype\<close> as its prototype.
  Strings are lists of code units below 256.
\<close>

typedef safe_integer = "{n :: int. - (2 ^ 53) < n \<and> n < 2 ^ 53}"
  morphisms int_of_safe safe_of_int
  by (rule exI [of _ 0]) simp

datatype jsval =
    JUndefined
  | JNull
  | JBool bool
  | JNum safe_integer
  | JStr string
  | JArr "jsval list"
  | JObj "(string \<times> jsval) list"

text \<open>A thrown exception: \<^verbatim>\<open>new Error(msg)\<close>, or a \<^verbatim>\<open>TypeError\<close> raised by the runtime.\<close>

datatype error = Error string | TypeError string

text \<open>\<^verbatim>\<open>ToBoolean\<close>: the values that \<^verbatim>\<open>||\<close>, \<^verbatim>\<open>!\<close> and \<^verbatim>\<open>while (...)\<close> treat as true.\<close>

fun truthy :: "jsval \<Rightarrow> bool" where
  "truthy JUndefined = False"
| "truthy JNull = False"
| "truthy (JBool b) = b"
| "truthy (JNum n) = (int_of_safe n \<noteq> 0)"
| "truthy (JStr s) = (s \<noteq> [])"
| "truthy (JArr xs) = True"
| "truthy (JObj kvs) = True"

text \<open>
  A variable that holds either a string or \<^verbatim>\<open>undefined\<close> is a \<open>string option\<close>.
  Concatenating it to a string with \<^verbatim>\<open>+\<close> writes \<^verbatim>\<open>undefined\<close> for the missing value.
\<close>

fun str_of :: "string option \<Rightarrow> string" where
  "str_of None = ''undefined''"
| "str_of (Some s) = s"

section \<open>Tag compiler\<close>

definition STR_WITH :: string where "STR_WITH = ''with''"
definition STR_OBJ_OPEN :: string where "STR_OBJ_OPEN = ''{''"
definition STR_OBJ_CLOSE :: string where "STR_OBJ_CLOSE = ''}''"
definition STR_IN :: string where "STR_IN = ''in''"

text \<open>
  The inner loop of \<^verbatim>\<open>compile\<close> (lines 82 to 95), entered after \<^verbatim>\<open>with\<close> and \<^verbatim>\<open>{\<close>:
  \<^verbatim>\<open>while ((objPart = args.shift())) { ... }\<close>. The arguments are the remaining
  \<^verbatim>\<open>args\<close>, \<^verbatim>\<open>objOpenings\<close>, \<^verbatim>\<open>objClosings\<close> and \<^verbatim>\<open>objParts\<close>. The loop ends when
  \<^verbatim>\<open>args.shift()\<close> is falsy (the array is empty, or the token is the empty string, which
  is still removed), or at the \<^verbatim>\<open>break\<close>. The result is the string assigned to
  \<^verbatim>\<open>props\<close> at the \<^verbatim>\<open>break\<close> (\<open>None\<close> when the loop ended without it) and what is left of
  \<^verbatim>\<open>args\<close>.
\<close>

fun obj_loop :: "string list \<Rightarrow> nat \<Rightarrow> nat \<Rightarrow> string \<Rightarrow> string option \<times> string list" where
  "obj_loop [] objOpenings objClosings objParts = (None, [])"
| "obj_loop (objPart # args) objOpenings objClosings objParts =
     (if objPart = [] then (None, args)
      else
        let objOpenings' = (if objPart = STR_OBJ_OPEN then objOpenings + 1 else objOpenings);
            objClosings' = (if objPart \<noteq> STR_OBJ_OPEN \<and> objPart = STR_OBJ_CLOSE
                            then objClosings + 1 else objClosings);
            objParts' = objParts @ objPart
        in if objPart = STR_OBJ_CLOSE \<and> objOpenings' = objClosings'
           then (Some objParts', args)
           else obj_loop args objOpenings' objClosings' objParts')"

text \<open>
  One iteration of the outer loop (lines 74 to 106) on the state \<^verbatim>\<open>args\<close>, \<^verbatim>\<open>props\<close>,
  \<^verbatim>\<open>container\<close>: the loop is left normally, an \<^verbatim>\<open>Error\<close> is thrown, or the next iteration
  starts in a new state.
\<close>

datatype step = Done | Throw error | Next "string list" "string option" "string option"

fun loop_step :: "string list \<Rightarrow> string option \<Rightarrow> string option \<Rightarrow> step" where
  "loop_step [] props container = Done"
| \<open>loop_step (arg # args) props container =
     (if arg = [] then Done
      else if arg = STR_WITH then
        (case args of
           [] \<Rightarrow> Next [] None container
         | p # args' \<Rightarrow>
             if p = STR_OBJ_OPEN then
               (case obj_loop args' 1 0 STR_OBJ_OPEN of
                  (Some objParts, rest) \<Rightarrow> Next rest (Some objParts) container
                | (None, rest) \<Rightarrow> Next rest (Some p) container)
             else Next args' (Some p) container)
      else if arg = STR_IN then
        (case args of
           [] \<Rightarrow> Next [] props None
         | c # args' \<Rightarrow> Next args' props (Some c))
      else Throw (Error (''Unexpected argument "'' @ arg @ ''" in react tag.'')))\<close>

lemma obj_loop_length: "length (snd (obj_loop args a b parts)) \<le> length args"
proof (induction args arbitrary: a b parts)
  case Nil
  show ?case by simp
next
  case (Cons t ts)
  have "length (snd (obj_loop ts a' b' parts')) \<le> Suc (length ts)" for a' b' parts'
    using Cons.IH [of a' b' parts'] by simp
  then show ?case by (simp add: Let_def)
qed

lemma obj_loop_shorter: "obj_loop ts a b parts = (r, rest) \<Longrightarrow> length rest \<le> length ts"
  using obj_loop_length [of ts a b parts] by simp

lemma loop_step_length:
  assumes "loop_step args props container = Next args' props' container'"
  shows "length args' < length args"
proof (cases args)
  case Nil
  with assms show ?thesis by simp
next
  case (Cons arg rest)
  with assms show ?thesis
    by (auto split: if_splits list.splits prod.splits option.splits
             dest!: obj_loop_shorter)
qed

text \<open>
  The outer loop \<^verbatim>\<open>while ((arg = args.shift())) { switch (arg) ... }\<close>: the final values of
  \<^verbatim>\<open>props\<close> and \<^verbatim>\<open>container\<close>, or the error thrown.
\<close>

function arg_loop :: "string list \<Rightarrow> string option \<Rightarrow> string option
    \<Rightarrow> error + (string option \<times> string option)" where
  "arg_loop args props container =
     (case loop_step args props container of
        Done \<Rightarrow> Inr (props, container)
      | Throw e \<Rightarrow> Inl e
      | Next args' props' container' \<Rightarrow> arg_loop args' props' container')"
  by pat_completeness auto
termination
  by (relation "measure (\<lambda>(args, props, container). length args)")
     (auto dest: loop_step_length)

declare arg_loop.simps [simp del]

text \<open>
  The statement that \<^verbatim>\<open>compile\<close> returns (lines 109 to 130), for the values of
  \<^verbatim>\<open>componentName\<close>, \<^verbatim>\<open>props\<close> and \<^verbatim>\<open>container\<close> after the loop.
\<close>

definition emit :: "string option \<Rightarrow> string option \<Rightarrow> string option \<Rightarrow> string" where
  \<open>emit componentName props container =
     ''_output += (function(props, container) {''
   @ ''props = props || {};''
   @ ''container = container || { tag: 'div' };''
   @ ''var __o = '<' + container.tag;''
   @ ''var __p = JSON.stringify(props).replace(/"/g, "&quot;");''
   @ ''for (var key in container) {''
   @ ''var val;''
   @ ''if (container.hasOwnProperty(key) && key !== 'tag') {''
   @ ''val = container[key].replace('"', '&quot;');''
   @ ''__o += ' ' + key + '="' + val + '"';''
   @ ''}''
   @ ''}''
   @ ''__o += ' data-react-component="'' @ str_of componentName @ ''"';''
   @ ''__o += ' data-react-props="' + __p + '">';''
   @ ''__o += _ext.react('' @ [CHR 0x27] @ str_of componentName @ [CHR 0x27] @ '', props);''
   @ ''__o += '</' + container.tag + '>';''
   @ ''return __o;''
   @ ''})('' @ str_of props @ '', '' @ str_of container @ '');'' @ [CHR 0x0A]\<close>

text \<open>
  The \<^verbatim>\<open>options\<close> object of swig, of which \<^verbatim>\<open>compile\<close> reads the property
  \<^verbatim>\<open>reactComponentRoot\<close> (\<open>JUndefined\<close> when the property is absent).
\<close>

record options =
  reactComponentRoot :: jsval

text \<open>
  \<^verbatim>\<open>compile(compiler, args, content, parents, options)\<close>. \<^verbatim>\<open>args.shift()\<close> on an empty
  array gives \<^verbatim>\<open>undefined\<close>.
\<close>

definition compile :: "'compiler \<Rightarrow> string list \<Rightarrow> 'content \<Rightarrow> 'parents \<Rightarrow> 'more options_scheme
    \<Rightarrow> error + string" where
  "compile compiler args content parents options =
     (let componentRoot = (if truthy (reactComponentRoot options)
                           then reactComponentRoot options else JStr ''./'');
          componentName = (case args of [] \<Rightarrow> None | a # _ \<Rightarrow> Some a)
      in case arg_loop (drop 1 args) None None of
           Inl e \<Rightarrow> Inl e
         | Inr (props, container) \<Rightarrow> Inr (emit componentName props container))"

section \<open>Tag parser\<close>

text \<open>
  \<^verbatim>\<open>parse\<close> registers one handler for \<^verbatim>\<open>STRING\<close> tokens and one for \<^verbatim>\<open>VAR\<close> tokens.
  Both share the variable \<^verbatim>\<open>componentName\<close> of \<^verbatim>\<open>parse\<close> (\<^verbatim>\<open>undefined\<close> at first) and push
  to \<^verbatim>\<open>this.out\<close>, the argument list that \<^verbatim>\<open>compile\<close> receives. A handler returns
  \<^verbatim>\<open>undefined\<close> (a bare \<^verbatim>\<open>return\<close>), \<^verbatim>\<open>true\<close> or \<^verbatim>\<open>false\<close>.
\<close>

datatype signal = ReturnUndefined | ReturnTrue | ReturnFalse

text \<open>
  Modelled from the spec: the value that a handler returns tells the host engine whether
  to treat the token as part of its own grammar as well. The host's token parser, which
  reads that value, is not part of the module; it passes the token through exactly when
  the value is truthy.
\<close>

fun passes_through :: "signal \<Rightarrow> bool" where
  "passes_through ReturnUndefined = False"
| "passes_through ReturnTrue = True"
| "passes_through ReturnFalse = False"

text \<open>\<^verbatim>\<open>!componentName\<close> for a variable that is \<^verbatim>\<open>undefined\<close> or a string.\<close>

fun unset :: "string option \<Rightarrow> bool" where
  "unset None = True"
| "unset (Some s) = (s = [])"

definition is_quote :: "char \<Rightarrow> bool" where
  "is_quote c \<longleftrightarrow> c = CHR 0x27 \<or> c = CHR 0x22"

text \<open>
  \<^verbatim>\<open>match.replace(/(^['"]|['"]$)/g, "")\<close>: a quote character at the start is removed, and a
  quote character at the end of what follows it is removed.
\<close>

definition strip_quotes :: "string \<Rightarrow> string" where
  "strip_quotes match =
     (let s = (if match \<noteq> [] \<and> is_quote (hd match) then tl match else match)
      in if s \<noteq> [] \<and> is_quote (last s) then butlast s else s)"

text \<open>
  The handlers, as functions of \<^verbatim>\<open>componentName\<close>, \<^verbatim>\<open>this.out\<close> and \<^verbatim>\<open>token.match\<close>, giving
  the returned value and the new \<^verbatim>\<open>componentName\<close> and \<^verbatim>\<open>this.out\<close>.
\<close>

definition on_STRING :: "string option \<Rightarrow> string list \<Rightarrow> string
    \<Rightarrow> signal \<times> string option \<times> string list" where
  "on_STRING componentName out match =
     (if unset componentName then
        (let componentName' = strip_quotes match
         in (ReturnUndefined, Some componentName', out @ [componentName']))
      else (ReturnTrue, componentName, out))"

definition on_VAR :: "string option \<Rightarrow> string list \<Rightarrow> string
    \<Rightarrow> signal \<times> string option \<times> string list" where
  "on_VAR componentName out match =
     (if unset componentName then (ReturnTrue, Some match, out)
      else if match = STR_WITH \<or> match = STR_IN then (ReturnFalse, componentName, out @ [match])
      else (ReturnTrue, componentName, out))"

section \<open>Component registry\<close>

text \<open>
  The registry \<^verbatim>\<open>components\<close> is an object created as \<^verbatim>\<open>{}\<close>; it is modelled by the map of
  its own properties, from names to component references of an arbitrary type \<open>'c\<close>.

  An argument of \<^verbatim>\<open>extendComponents\<close> is any JavaScript value. An object is given by its own
  enumerable properties in order (ordinary property names: the key \<^verbatim>\<open>__proto__\<close>, which
  \<^verbatim>\<open>Object.assign\<close> hands to the prototype setter, is not modelled).
\<close>

datatype 'c argument =
    ArgObject "(string \<times> 'c) list"
  | ArgNull
  | ArgUndefined
  | ArgBoolean bool
  | ArgNumber int
  | ArgString string
  | ArgFunction

fun typeof :: "'c argument \<Rightarrow> string" where
  "typeof (ArgObject kvs) = ''object''"
| "typeof ArgNull = ''object''"
| "typeof ArgUndefined = ''undefined''"
| "typeof (ArgBoolean b) = ''boolean''"
| "typeof (ArgNumber n) = ''number''"
| "typeof (ArgString s) = ''string''"
| "typeof ArgFunction = ''function''"

text \<open>
  \<^verbatim>\<open>Object.assign(components, componentObject)\<close> for a source that passed the \<^verbatim>\<open>typeof\<close> test:
  each own property of the source is written to the target in order; \<^verbatim>\<open>null\<close> is skipped.
\<close>

fun assign_props :: "(string \<rightharpoonup> 'c) \<Rightarrow> (string \<times> 'c) list \<Rightarrow> (string \<rightharpoonup> 'c)" where
  "assign_props components [] = components"
| "assign_props components ((k, v) # kvs) = assign_props (components(k \<mapsto> v)) kvs"

fun object_assign :: "(string \<rightharpoonup> 'c) \<Rightarrow> 'c argument \<Rightarrow> (string \<rightharpoonup> 'c)" where
  "object_assign components (ArgObject kvs) = assign_props components kvs"
| "object_assign components other = components"

text \<open>
  \<^verbatim>\<open>extendComponents\<close> on the registry and the list of its \<^verbatim>\<open>arguments\<close>: the loop
  \<^verbatim>\<open>for (argumentIndex in arguments)\<close> visits them in order. The result is the error thrown
  (or \<open>Inr ()\<close> for the normal return) together with the registry as the call leaves it.
\<close>

fun extendComponents :: "(string \<rightharpoonup> 'c) \<Rightarrow> 'c argument list \<Rightarrow> (error + unit) \<times> (string \<rightharpoonup> 'c)" where
  "extendComponents components [] = (Inr (), components)"
| "extendComponents components (componentObject # arguments) =
     (if typeof componentObject \<noteq> ''object''
      then (Inl (Error ''`extendComponents` expects objects to be passed in.''), components)
      else extendComponents (object_assign components componentObject) arguments)"

section \<open>Render bridge\<close>

text \<open>
  What \<^verbatim>\<open>components[componentName]\<close> evaluates to: an own property of the registry, a
  property inherited from \<^verbatim>\<open>Object.prototype\<close>, or \<^verbatim>\<open>undefined\<close>.
\<close>

datatype 'c looked_up = Component 'c | Inherited string | Missing

definition object_prototype_keys :: "string list" where
  "object_prototype_keys =
     [''constructor'', ''hasOwnProperty'', ''isPrototypeOf'', ''propertyIsEnumerable'',
      ''toLocaleString'', ''toString'', ''valueOf'', ''__proto__'',
      ''__defineGetter__'', ''__defineSetter__'', ''__lookupGetter__'', ''__lookupSetter__'']"

definition get_component :: "(string \<rightharpoonup> 'c) \<Rightarrow> string \<Rightarrow> 'c looked_up" where
  "get_component components componentName =
     (case components componentName of
        Some c \<Rightarrow> Component c
      | None \<Rightarrow> if componentName \<in> set object_prototype_keys
                then Inherited componentName else Missing)"

text \<open>
  The parts of the runtime that the module calls and does not define:
  \<^item> \<open>rt_render x props\<close> is \<^verbatim>\<open>ReactDOMServer.renderToString(React.createElement(x, props))\<close>,
    a string or an exception;
  \<^item> \<open>rt_call c name\<close> is what happens when a value stored in the registry is called as a
    function with one string argument: \<open>None\<close> when the value is not callable, otherwise the
    exception it throws or the truth value of what it returns.
\<close>

record 'c runtime =
  rt_render :: "'c looked_up \<Rightarrow> jsval \<Rightarrow> error + string"
  rt_call :: "'c \<Rightarrow> string \<Rightarrow> (error + bool) option"

text \<open>
  The test of line 180, \<^verbatim>\<open>components.hasOwnProperty(componentName)\<close>. The method is looked up
  on the registry itself: it is \<^verbatim>\<open>Object.prototype.hasOwnProperty\<close> unless a component has
  been registered under the name \<^verbatim>\<open>hasOwnProperty\<close>, which is then what gets called.
\<close>

definition has_component :: "'c runtime \<Rightarrow> (string \<rightharpoonup> 'c) \<Rightarrow> string \<Rightarrow> error + bool" where
  "has_component rt components componentName =
     (case components ''hasOwnProperty'' of
        None \<Rightarrow> Inr (components componentName \<noteq> None)
      | Some f \<Rightarrow>
          (case rt_call rt f componentName of
             None \<Rightarrow> Inl (TypeError ''components.hasOwnProperty is not a function'')
           | Some r \<Rightarrow> r))"

text \<open>The message written with \<^verbatim>\<open>console.error\<close> (a template literal over three lines).\<close>

definition diagnostic :: "string \<Rightarrow> string" where
  \<open>diagnostic componentName =
     ''"'' @ componentName @ ''" component does not exist in components supplied.'' @ [CHR 0x0A]
   @ ''      Try extending @risd/webhook-react-tag with an object that includes ''
   @ componentName @ ''.'' @ [CHR 0x0A]
   @ ''      ie: require('@risd/webhook-react-tag').components( { ''
   @ componentName @ '' } )''\<close>

text \<open>
  \<^verbatim>\<open>renderReactComponentToString(componentName, props)\<close>, with the lines written by
  \<^verbatim>\<open>console.error\<close> so far as state. The value returned is a string, or \<^verbatim>\<open>undefined\<close>
  (\<open>None\<close>) where the function ends without \<^verbatim>\<open>return\<close>.
\<close>

definition renderReactComponentToString :: "'c runtime \<Rightarrow> (string \<rightharpoonup> 'c) \<Rightarrow> string \<Rightarrow> jsval
    \<Rightarrow> string list \<Rightarrow> (error + string option) \<times> string list" where
  "renderReactComponentToString rt components componentName props console =
     (case has_component rt components componentName of
        Inl e \<Rightarrow> (Inl e, console)
      | Inr True \<Rightarrow>
          (case rt_render rt (get_component components componentName) props of
             Inl e \<Rightarrow> (Inl e, console)
           | Inr markup \<Rightarrow> (Inr (Some markup), console))
      | Inr False \<Rightarrow> (Inr None, console @ [diagnostic componentName]))"

section \<open>The emitted code at render time\<close>

text \<open>
  The statement returned by \<^verbatim>\<open>compile\<close> is JavaScript source; swig evaluates it when the
  template is rendered, with \<^verbatim>\<open>_ext.react\<close> bound to \<^verbatim>\<open>renderReactComponentToString\<close>. This
  section gives the meaning of that source as a function of the values that the spliced
  \<^verbatim>\<open>props\<close> and \<^verbatim>\<open>container\<close> expressions evaluate to (\<open>JUndefined\<close> for the text
  \<^verbatim>\<open>undefined\<close> that an absent clause leaves). The built-in operations it uses follow
  ECMA-262 on the values of \<open>jsval\<close>.
\<close>

subsection \<open>Built-in operations\<close>

text \<open>
  Decimal digits of a natural number, and \<^verbatim>\<open>Number::toString\<close> on safe integers (there
  is no negative zero among them).
\<close>

function digits :: "nat \<Rightarrow> string" where
  "digits n = (if n < 10 then [char_of (48 + n)]
               else digits (n div 10) @ [char_of (48 + n mod 10)])"
  by pat_completeness auto
termination
  by (relation "measure id") auto

declare digits.simps [simp del]

definition number_to_string :: "safe_integer \<Rightarrow> string" where
  "number_to_string x =
     (let n = int_of_safe x
      in if n < 0 then ''-'' @ digits (nat (- n)) else digits (nat n))"

fun join_comma :: "string list \<Rightarrow> string" where
  "join_comma [] = []"
| "join_comma [x] = x"
| "join_comma (x # y # zs) = x @ '','' @ join_comma (y # zs)"

text \<open>
  \<^verbatim>\<open>ToString\<close>, as applied by \<^verbatim>\<open>+\<close> with a string operand. An array is joined with commas
  (\<^verbatim>\<open>undefined\<close> and \<^verbatim>\<open>null\<close> elements give the empty string). An object gives
  \<^verbatim>\<open>[object Object]\<close>; if it has an own property \<^verbatim>\<open>toString\<close>, that property (which is not
  callable, as no value of \<open>jsval\<close> is) hides the inherited method and the conversion
  throws.
\<close>

fun to_string :: "jsval \<Rightarrow> error + string"
  and join_elements :: "jsval list \<Rightarrow> error + string" where
  "to_string JUndefined = Inr ''undefined''"
| "to_string JNull = Inr ''null''"
| "to_string (JBool b) = Inr (if b then ''true'' else ''false'')"
| "to_string (JNum n) = Inr (number_to_string n)"
| "to_string (JStr s) = Inr s"
| "to_string (JArr xs) = join_elements xs"
| "to_string (JObj kvs) =
     (if ''toString'' \<in> fst ` set kvs
      then Inl (TypeError ''Cannot convert object to primitive value'')
      else Inr ''[object Object]'')"
| "join_elements [] = Inr []"
| "join_elements (x # xs) =
     (case (if x = JUndefined \<or> x = JNull then Inr [] else to_string x) of
        Inl e \<Rightarrow> Inl e
      | Inr s \<Rightarrow>
          if xs = [] then Inr s
          else (case join_elements xs of Inl e \<Rightarrow> Inl e | Inr t \<Rightarrow> Inr (s @ '','' @ t)))"

text \<open>
  \<^verbatim>\<open>QuoteJSONString\<close>: the string in double quotes, with the double quote, the backslash and
  the control characters escaped.
\<close>

definition hex_digit :: "nat \<Rightarrow> char" where
  "hex_digit d = (if d < 10 then char_of (48 + d) else char_of (87 + d))"

definition JSON_escape_char :: "char \<Rightarrow> string" where
  "JSON_escape_char c =
     (if c = CHR 0x08 then [CHR 0x5C, CHR ''b'']
      else if c = CHR 0x09 then [CHR 0x5C, CHR ''t'']
      else if c = CHR 0x0A then [CHR 0x5C, CHR ''n'']
      else if c = CHR 0x0C then [CHR 0x5C, CHR ''f'']
      else if c = CHR 0x0D then [CHR 0x5C, CHR ''r'']
      else if c = CHR 0x22 then [CHR 0x5C, CHR 0x22]
      else if c = CHR 0x5C then [CHR 0x5C, CHR 0x5C]
      else if (of_char c :: nat) < 32
        then [CHR 0x5C, CHR ''u'', CHR ''0'', CHR ''0'',
              hex_digit (of_char c div 16), hex_digit (of_char c mod 16)]
      else [c])"

definition JSON_quote :: "string \<Rightarrow> string" where
  "JSON_quote s = [CHR 0x22] @ concat (map JSON_escape_char s) @ [CHR 0x22]"

text \<open>
  \<^verbatim>\<open>JSON.stringify\<close> with one argument: \<^verbatim>\<open>undefined\<close> (\<open>None\<close>) for \<^verbatim>\<open>undefined\<close>; inside an
  array \<^verbatim>\<open>undefined\<close> is written \<^verbatim>\<open>null\<close>, inside an object the property is left out.
\<close>

fun JSON_stringify :: "jsval \<Rightarrow> string option"
  and JSON_elements :: "jsval list \<Rightarrow> string list"
  and JSON_members :: "(string \<times> jsval) list \<Rightarrow> string list" where
  "JSON_stringify JUndefined = None"
| "JSON_stringify JNull = Some ''null''"
| "JSON_stringify (JBool b) = Some (if b then ''true'' else ''false'')"
| "JSON_stringify (JNum n) = Some (number_to_string n)"
| "JSON_stringify (JStr s) = Some (JSON_quote s)"
| "JSON_stringify (JArr xs) = Some (''['' @ join_comma (JSON_elements xs) @ '']'')"
| "JSON_stringify (JObj kvs) = Some (''{'' @ join_comma (JSON_members kvs) @ ''}'')"
| "JSON_elements [] = []"
| "JSON_elements (x # xs) =
     (case JSON_stringify x of None \<Rightarrow> ''null'' | Some s \<Rightarrow> s) # JSON_elements xs"
| "JSON_members [] = []"
| "JSON_members ((k, v) # kvs) =
     (case JSON_stringify v of
        None \<Rightarrow> JSON_members kvs
      | Some s \<Rightarrow> (JSON_quote k @ '':'' @ s) # JSON_members kvs)"

text \<open>
  \<^verbatim>\<open>s.replace(/"/g, "&quot;")\<close> replaces every double quote; \<^verbatim>\<open>s.replace('"', '&quot;')\<close>,
  whose pattern is a string, replaces the first one only.
\<close>

fun replace_all_quotes :: "string \<Rightarrow> string" where
  "replace_all_quotes [] = []"
| "replace_all_quotes (c # cs) =
     (if c = CHR 0x22 then ''&quot;'' @ replace_all_quotes cs else c # replace_all_quotes cs)"

fun replace_first_quote :: "string \<Rightarrow> string" where
  "replace_first_quote [] = []"
| "replace_first_quote (c # cs) =
     (if c = CHR 0x22 then ''&quot;'' @ cs else c # replace_first_quote cs)"

text \<open>
  The properties that \<^verbatim>\<open>for (var key in container)\<close> visits, with their values: the own
  properties of an object, the indices of an array or of a string. Nothing enumerable is
  inherited from the built-in prototypes.
\<close>

fun enumerate_from :: "nat \<Rightarrow> jsval list \<Rightarrow> (string \<times> jsval) list" where
  "enumerate_from i [] = []"
| "enumerate_from i (x # xs) = (digits i, x) # enumerate_from (Suc i) xs"

fun own_properties :: "jsval \<Rightarrow> (string \<times> jsval) list" where
  "own_properties (JObj kvs) = kvs"
| "own_properties (JArr xs) = enumerate_from 0 xs"
| "own_properties (JStr s) = enumerate_from 0 (map (\<lambda>c. JStr [c]) s)"
| "own_properties other = []"

text \<open>\<^verbatim>\<open>container.tag\<close>: reading a property of \<^verbatim>\<open>undefined\<close> or \<^verbatim>\<open>null\<close> throws.\<close>

fun get_tag :: "jsval \<Rightarrow> error + jsval" where
  "get_tag JUndefined = Inl (TypeError ''Cannot read properties of undefined (reading 'tag')'')"
| "get_tag JNull = Inl (TypeError ''Cannot read properties of null (reading 'tag')'')"
| "get_tag (JObj kvs) = Inr (case map_of kvs ''tag'' of None \<Rightarrow> JUndefined | Some v \<Rightarrow> v)"
| "get_tag other = Inr JUndefined"

subsection \<open>The emitted function\<close>

text \<open>
  The loop of lines 114 to 120 over the properties still to visit, with \<^verbatim>\<open>__o\<close> so far.
  \<^verbatim>\<open>container.hasOwnProperty\<close> is looked up on the container, so an own property of that
  name is called in place of the built-in method, and is not callable. The value of a
  property other than \<^verbatim>\<open>tag\<close> must have a \<^verbatim>\<open>replace\<close> method: only a string has. Reading
  \<^verbatim>\<open>replace\<close> from \<^verbatim>\<open>undefined\<close> or \<^verbatim>\<open>null\<close> throws; on any other value that is not a string
  it gives something that is not callable.
\<close>

fun attribute_loop :: "jsval \<Rightarrow> (string \<times> jsval) list \<Rightarrow> string \<Rightarrow> error + string" where
  "attribute_loop container [] out = Inr out"
| \<open>attribute_loop container ((key, v) # rest) out =
     (if ''hasOwnProperty'' \<in> fst ` set (own_properties container)
      then Inl (TypeError ''container.hasOwnProperty is not a function'')
      else if key \<noteq> ''tag'' then
        (case v of
           JStr s \<Rightarrow>
             (let val = replace_first_quote s
              in attribute_loop container rest (out @ '' '' @ key @ ''="'' @ val @ ''"''))
         | JUndefined \<Rightarrow>
             Inl (TypeError ''Cannot read properties of undefined (reading 'replace')'')
         | JNull \<Rightarrow>
             Inl (TypeError ''Cannot read properties of null (reading 'replace')'')
         | _ \<Rightarrow> Inl (TypeError ''container[key].replace is not a function''))
      else attribute_loop container rest out)\<close>


text \<open>
  The function that the emitted statement defines and calls (lines 109 to 130), for the
  value of the two literals that carry the component name, the values of the \<^verbatim>\<open>props\<close>
  and \<^verbatim>\<open>container\<close> expressions, the registry and runtime behind \<^verbatim>\<open>_ext.react\<close>, and the
  lines written by \<^verbatim>\<open>console.error\<close> so far. The result is the string appended to
  \<^verbatim>\<open>_output\<close>, or the exception.
\<close>

definition emitted_function :: "'c runtime \<Rightarrow> (string \<rightharpoonup> 'c) \<Rightarrow> string \<Rightarrow> jsval \<Rightarrow> jsval
    \<Rightarrow> string list \<Rightarrow> (error + string) \<times> string list" where
  \<open>emitted_function rt components componentName props container console =
     (let props = (if truthy props then props else JObj []);
          container = (if truthy container then container else JObj [(''tag'', JStr ''div'')])
      in case get_tag container of
           Inl e \<Rightarrow> (Inl e, console)
         | Inr tag \<Rightarrow>
        (case to_string tag of
           Inl e \<Rightarrow> (Inl e, console)
         | Inr tag_text \<Rightarrow>
        (case JSON_stringify props of
           None \<Rightarrow> (Inl (TypeError ''Cannot read properties of undefined (reading 'replace')''),
                     console)
         | Some json \<Rightarrow>
        (let p = replace_all_quotes json
         in case attribute_loop container (own_properties container) (''<'' @ tag_text) of
              Inl e \<Rightarrow> (Inl e, console)
            | Inr out \<Rightarrow>
           (let out = out @ '' data-react-component="'' @ componentName @ ''"'';
                out = out @ '' data-react-props="'' @ p @ ''">''
            in case renderReactComponentToString rt components componentName props console of
                 (Inl e, console') \<Rightarrow> (Inl e, console')
               | (Inr markup, console') \<Rightarrow>
                   (Inr (out @ str_of markup @ ''</'' @ tag_text @ ''>''), console'))))))\<close>

section \<open>Notions used in the statements\<close>

text \<open>
  \<open>balances a b ts k\<close>: the token of \<open>ts\<close> at index \<open>k\<close> is a closing brace, and once it is
  counted the closing braces equal the opening ones, where \<open>a\<close> openings and \<open>b\<close> closings
  had been counted before \<open>ts\<close>.
\<close>

definition balances :: "nat \<Rightarrow> nat \<Rightarrow> string list \<Rightarrow> nat \<Rightarrow> bool" where
  "balances a b ts k \<longleftrightarrow>
     k < length ts \<and> ts ! k = STR_OBJ_CLOSE \<and>
     a + count_list (take (Suc k) ts) STR_OBJ_OPEN
       = b + count_list (take (Suc k) ts) STR_OBJ_CLOSE"

text \<open>
  \<open>loop_reaches args props container args' props' container'\<close>: the outer loop of
  \<^verbatim>\<open>compile\<close>, started in the first state, begins an iteration in the second.
\<close>

inductive loop_reaches :: "string list \<Rightarrow> string option \<Rightarrow> string option
    \<Rightarrow> string list \<Rightarrow> string option \<Rightarrow> string option \<Rightarrow> bool" where
  here: "loop_reaches args props container args props container"
| later: "loop_step args props container = Next args' props' container' \<Longrightarrow>
     loop_reaches args' props' container' args'' props'' container'' \<Longrightarrow>
     loop_reaches args props container args'' props'' container''"


text \<open>The tokens after the opening brace in the example \<^verbatim>\<open>{a:1,b:{c:2}}\<close>.\<close>

definition object_tokens :: "string list" where
  "object_tokens = [''a'', '':'', ''1'', '','', ''b'', '':'', ''{'', ''c'', '':'', ''2'', ''}'', ''}'']"

text \<open>
  An object in the sense of the language: a value of type Object. A function is one;
  \<^verbatim>\<open>null\<close> is not, although its \<^verbatim>\<open>typeof\<close> is \<^verbatim>\<open>object\<close>.
\<close>

fun is_object :: "'c argument \<Rightarrow> bool" where
  "is_object (ArgObject kvs) = True"
| "is_object ArgFunction = True"
| "is_object other = False"

text \<open>
  A runtime for the examples: components are the names of host elements such as
  \<^verbatim>\<open>'div'\<close> (strings, which are not callable), and rendering always gives the same markup.
\<close>

definition sample_runtime :: "string runtime" where
  "sample_runtime = \<lparr>rt_render = (\<lambda>x props. Inr ''<b>hi</b>''), rt_call = (\<lambda>c name. None)\<rparr>"

section \<open>Properties of the tag compiler\<close>

lemma braces_differ: "STR_OBJ_OPEN \<noteq> STR_OBJ_CLOSE"
  by (simp add: STR_OBJ_OPEN_def STR_OBJ_CLOSE_def)

lemma balances_Cons_Suc:
  "balances a b (t # ts) (Suc k) \<longleftrightarrow>
     balances (if t = STR_OBJ_OPEN then a + 1 else a)
              (if t \<noteq> STR_OBJ_OPEN \<and> t = STR_OBJ_CLOSE then b + 1 else b) ts k"
  using braces_differ by (auto simp: balances_def)

lemma balances_Cons_0:
  "balances a b (t # ts) 0 \<longleftrightarrow> t = STR_OBJ_CLOSE \<and> a = b + 1"
  using braces_differ by (auto simp: balances_def)

lemma obj_loop_skip:
  assumes "\<forall>t\<in>set pre. t \<noteq> []" and "\<forall>k<length pre. \<not> balances a b pre k"
  shows "obj_loop (pre @ rest) a b parts =
           obj_loop rest (a + count_list pre STR_OBJ_OPEN) (b + count_list pre STR_OBJ_CLOSE)
             (parts @ concat pre)"
  using assms
proof (induction pre arbitrary: a b parts)
  case Nil
  show ?case by simp
next
  case (Cons t ts)
  let ?a = "if t = STR_OBJ_OPEN then a + 1 else a"
  let ?b = "if t \<noteq> STR_OBJ_OPEN \<and> t = STR_OBJ_CLOSE then b + 1 else b"
  from Cons.prems have ne: "t \<noteq> []" and nes: "\<forall>t\<in>set ts. t \<noteq> []" by simp_all
  from Cons.prems(2) have "\<not> balances a b (t # ts) 0" by auto
  then have nostop: "\<not> (t = STR_OBJ_CLOSE \<and> ?a = ?b)"
    using braces_differ by (auto simp: balances_Cons_0)
  have "\<forall>k<length ts. \<not> balances ?a ?b ts k"
  proof (intro allI impI)
    fix k assume "k < length ts"
    then have "\<not> balances a b (t # ts) (Suc k)" using Cons.prems(2) by auto
    moreover have "balances a b (t # ts) (Suc k) = balances ?a ?b ts k"
      by (rule balances_Cons_Suc)
    ultimately show "\<not> balances ?a ?b ts k" by blast
  qed
  from Cons.IH [OF nes this, of "parts @ t"]
  have IH: "obj_loop (ts @ rest) ?a ?b (parts @ t) =
      obj_loop rest (?a + count_list ts STR_OBJ_OPEN) (?b + count_list ts STR_OBJ_CLOSE)
        ((parts @ t) @ concat ts)" .
  have "obj_loop ((t # ts) @ rest) a b parts = obj_loop (ts @ rest) ?a ?b (parts @ t)"
    using ne nostop braces_differ braces_differ [symmetric] by (auto simp add: Let_def)
  also note IH
  finally show ?case using braces_differ braces_differ [symmetric] by auto
qed

lemma balances_take:
  assumes "j < k" and "k \<le> length ts"
  shows "balances a b (take k ts) j = balances a b ts j"
proof -
  have "take (Suc j) (take k ts) = take (Suc j) ts" using assms by (simp add: min_def)
  moreover have "take k ts ! j = ts ! j" using assms by simp
  ultimately show ?thesis using assms by (simp add: balances_def)
qed

lemma obj_loop_prefix:
  assumes kl: "k \<le> length ts"
    and quiet: "\<forall>j<k. ts ! j \<noteq> [] \<and> \<not> balances a b ts j"
  shows "obj_loop ts a b parts =
           obj_loop (drop k ts) (a + count_list (take k ts) STR_OBJ_OPEN)
             (b + count_list (take k ts) STR_OBJ_CLOSE) (parts @ concat (take k ts))"
proof -
  have ne: "\<forall>t\<in>set (take k ts). t \<noteq> []"
    using quiet kl by (auto simp: in_set_conv_nth)
  have nb: "\<forall>j<length (take k ts). \<not> balances a b (take k ts) j"
    using quiet kl by (simp add: balances_take)
  show ?thesis
    using obj_loop_skip [OF ne nb, of "drop k ts" parts] by simp
qed

lemma loop_reaches_arg_loop:
  "loop_reaches args props container args' props' container' \<Longrightarrow>
     arg_loop args props container = arg_loop args' props' container'"
proof (induction rule: loop_reaches.induct)
  case (here args props container)
  show ?case by simp
next
  case (later args props container args' props' container' args'' props'' container'')
  then show ?case by (simp add: arg_loop.simps [of args props container])
qed

lemma compile_reached:
  assumes "loop_reaches (drop 1 args) None None args' props container"
  shows "compile compiler args content parents options =
           (case arg_loop args' props container of
              Inl e \<Rightarrow> Inl e
            | Inr (props', container') \<Rightarrow>
                Inr (emit (case args of [] \<Rightarrow> None | a # _ \<Rightarrow> Some a) props' container'))"
  using loop_reaches_arg_loop [OF assms] by (simp add: compile_def)

lemma obj_loop_exhausted:
  assumes "\<forall>j<length ts. ts ! j \<noteq> [] \<and> \<not> balances 1 0 ts j"
  shows "obj_loop ts 1 0 STR_OBJ_OPEN = (None, [])"
  using obj_loop_prefix [of "length ts" ts 1 0 STR_OBJ_OPEN] assms by simp

lemma obj_loop_empty_token:
  assumes "k < length ts" and "ts ! k = []"
    and "\<forall>j<k. ts ! j \<noteq> [] \<and> \<not> balances 1 0 ts j"
  shows "obj_loop ts 1 0 STR_OBJ_OPEN = (None, drop (Suc k) ts)"
proof -
  have "drop k ts = [] # drop (Suc k) ts"
    using assms(1,2) by (metis Cons_nth_drop_Suc)
  then show ?thesis
    using obj_loop_prefix [of k ts 1 0 STR_OBJ_OPEN] assms by simp
qed

text \<open>
  Claim C2, as stated, fails when an empty-string token comes before the balancing brace.
  In the tokens \<^verbatim>\<open>a\<close>, the empty string, \<^verbatim>\<open>}\<close> after \<^verbatim>\<open>with\<close> and \<^verbatim>\<open>{\<close>, the brace at index 2
  is the first closing brace at which the counts are equal, but the inner loop ends at the
  empty string: nothing is reconstructed, \<^verbatim>\<open>props\<close> stays \<^verbatim>\<open>{\<close>, and the outer loop throws
  on the brace.
\<close>

theorem empty_token_stops_reconstruction:
  \<open>balances 1 0 [''a'', '''', ''}''] 2
   \<and> \<not> balances 1 0 [''a'', '''', ''}''] 0
   \<and> \<not> balances 1 0 [''a'', '''', ''}''] 1
   \<and> loop_step (STR_WITH # STR_OBJ_OPEN # [''a'', '''', ''}'']) None None =
       Next [''}''] (Some ''{'') None
   \<and> compile () [''Header'', ''with'', ''{'', ''a'', '''', ''}''] () ()
       \<lparr>reactComponentRoot = JUndefined\<rparr> =
       Inl (Error ''Unexpected argument "}" in react tag.'')\<close>
  by (simp add: balances_def compile_def arg_loop.simps
        STR_WITH_def STR_IN_def STR_OBJ_OPEN_def STR_OBJ_CLOSE_def)

text \<open>
  Claim C2, amended. When the outer loop of \<^verbatim>\<open>compile\<close> dequeues \<^verbatim>\<open>with\<close> and the next
  argument is \<^verbatim>\<open>{\<close>, the tokens that follow are dequeued and concatenated, opening and
  closing braces being counted, up to and including the first closing brace at which the
  counts are equal, provided that every token before that brace is a non-empty string: if
  the brace is at index \<open>k\<close> of the tokens after \<^verbatim>\<open>{\<close>, \<^verbatim>\<open>props\<close> becomes \<^verbatim>\<open>{\<close> followed by the
  tokens up to index \<open>k\<close>, and the loop goes on with the tokens after index \<open>k\<close>. For the
  tokens \<^verbatim>\<open>{ a : 1 , b : { c : 2 } }\<close> the statement returned by \<^verbatim>\<open>compile\<close> is the one with
  the props expression \<^verbatim>\<open>{a:1,b:{c:2}}\<close>: the inner closing brace, at index 10 of the tokens
  after the first \<^verbatim>\<open>{\<close>, is not where the counts are equal.
\<close>

theorem with_brace_reconstructs_object:
  assumes k: "balances 1 0 ts k"
    and quiet: "\<forall>j<k. ts ! j \<noteq> [] \<and> \<not> balances 1 0 ts j"
  shows "loop_step (STR_WITH # STR_OBJ_OPEN # ts) props container =
           Next (drop (Suc k) ts) (Some (STR_OBJ_OPEN @ concat (take (Suc k) ts))) container
       \<and> compile compiler (n # ''with'' # ''{'' # object_tokens) content parents options =
           Inr (emit (Some n) (Some ''{a:1,b:{c:2}}'') None)
       \<and> object_tokens ! 10 = STR_OBJ_CLOSE \<and> \<not> balances 1 0 object_tokens 10"
proof (intro conjI)
  from k have kl: "k < length ts" and close: "ts ! k = STR_OBJ_CLOSE"
    and bal: "1 + count_list (take (Suc k) ts) STR_OBJ_OPEN
               = 0 + count_list (take (Suc k) ts) STR_OBJ_CLOSE"
    by (simp_all add: balances_def)
  have dk: "drop k ts = STR_OBJ_CLOSE # drop (Suc k) ts"
    using kl close by (metis Cons_nth_drop_Suc)
  have tk: "take (Suc k) ts = take k ts @ [STR_OBJ_CLOSE]"
    using kl close by (simp add: take_Suc_conv_app_nth)
  from bal have cnt: "1 + count_list (take k ts) STR_OBJ_OPEN
      = Suc (count_list (take k ts) STR_OBJ_CLOSE)"
    using braces_differ by (simp add: tk)
  have "obj_loop ts 1 0 STR_OBJ_OPEN =
          obj_loop (STR_OBJ_CLOSE # drop (Suc k) ts) (1 + count_list (take k ts) STR_OBJ_OPEN)
            (0 + count_list (take k ts) STR_OBJ_CLOSE) (STR_OBJ_OPEN @ concat (take k ts))"
    using obj_loop_prefix [of k ts 1 0 STR_OBJ_OPEN] kl quiet dk by simp
  also have "\<dots> = (Some (STR_OBJ_OPEN @ concat (take k ts) @ STR_OBJ_CLOSE), drop (Suc k) ts)"
    using cnt braces_differ by (simp add: Let_def STR_OBJ_CLOSE_def)
  finally have "obj_loop ts 1 0 STR_OBJ_OPEN =
      (Some (STR_OBJ_OPEN @ concat (take (Suc k) ts)), drop (Suc k) ts)"
    by (simp add: tk)
  then show "loop_step (STR_WITH # STR_OBJ_OPEN # ts) props container =
      Next (drop (Suc k) ts) (Some (STR_OBJ_OPEN @ concat (take (Suc k) ts))) container"
    by (simp add: STR_WITH_def)
next
  show "compile compiler (n # ''with'' # ''{'' # object_tokens) content parents options =
      Inr (emit (Some n) (Some ''{a:1,b:{c:2}}'') None)"
    by (simp add: compile_def arg_loop.simps object_tokens_def
          STR_WITH_def STR_IN_def STR_OBJ_OPEN_def STR_OBJ_CLOSE_def)
next
  show "object_tokens ! 10 = STR_OBJ_CLOSE"
    by (simp add: object_tokens_def STR_OBJ_CLOSE_def)
next
  show "\<not> balances 1 0 object_tokens 10"
    by (simp add: balances_def object_tokens_def STR_OBJ_OPEN_def STR_OBJ_CLOSE_def)
qed

theorem with_brace_reconstructs_object_witness:
  "balances 1 0 object_tokens 11
   \<and> loop_step (STR_WITH # STR_OBJ_OPEN # object_tokens) None None =
       Next [] (Some ''{a:1,b:{c:2}}'') None"
proof -
  have k: "balances 1 0 object_tokens 11"
    by (simp add: balances_def object_tokens_def STR_OBJ_OPEN_def STR_OBJ_CLOSE_def)
  have quiet: "\<forall>j<11. object_tokens ! j \<noteq> [] \<and> \<not> balances 1 0 object_tokens j"
    by (simp add: balances_def object_tokens_def STR_OBJ_OPEN_def STR_OBJ_CLOSE_def
          All_less_Suc numeral_eq_Suc take_Suc_conv_app_nth)
  note w = with_brace_reconstructs_object [OF k quiet, of None None, THEN conjunct1]
  have "loop_step (STR_WITH # STR_OBJ_OPEN # object_tokens) None None =
      Next [] (Some ''{a:1,b:{c:2}}'') None"
    using w by (simp add: object_tokens_def STR_OBJ_OPEN_def del: loop_step.simps)
  with k show ?thesis by simp
qed

text \<open>
  Claim C4, as stated, fails: the empty string is a token that the outer loop dequeues and
  that is neither \<^verbatim>\<open>with\<close> nor \<^verbatim>\<open>in\<close>, and it ends the loop without an error. The
  arguments below are those that the handlers of \<^verbatim>\<open>parse\<close> push for three string tokens,
  two empty string literals and \<^verbatim>\<open>'bogus'\<close>.
\<close>

theorem empty_token_ends_loop_silently:
  "loop_reaches (drop 1 ['''', '''', ''bogus'']) None None ('''' # [''bogus'']) None None
   \<and> '''' \<noteq> STR_WITH \<and> '''' \<noteq> STR_IN
   \<and> compile () ['''', '''', ''bogus''] () () \<lparr>reactComponentRoot = JUndefined\<rparr> =
       Inr (emit (Some '''') None None)"
  by (simp add: loop_reaches.here compile_def arg_loop.simps STR_WITH_def STR_IN_def)

text \<open>
  Claim C4, amended. Whenever the outer loop of \<^verbatim>\<open>compile\<close> dequeues a token that is not the
  empty string and is neither \<^verbatim>\<open>with\<close> nor \<^verbatim>\<open>in\<close>, \<^verbatim>\<open>compile\<close> throws the error
  \<^verbatim>\<open>Unexpected argument "<token>" in react tag.\<close> and returns no code. Whenever it dequeues
  the empty string, the loop ends without an error, the arguments after it are not looked
  at, and \<^verbatim>\<open>compile\<close> returns its statement for the \<^verbatim>\<open>props\<close> and \<^verbatim>\<open>container\<close> found so far.
\<close>

theorem unexpected_argument_throws:
  assumes reach: "loop_reaches (drop 1 args) None None (arg # rest) props container"
  shows \<open>(arg \<noteq> [] \<and> arg \<noteq> STR_WITH \<and> arg \<noteq> STR_IN \<longrightarrow>
            compile compiler args content parents options =
              Inl (Error (''Unexpected argument "'' @ arg @ ''" in react tag.'')))
       \<and> (arg = [] \<longrightarrow>
            compile compiler args content parents options =
              Inr (emit (case args of [] \<Rightarrow> None | a # _ \<Rightarrow> Some a) props container))\<close>
proof (intro conjI impI)
  assume "arg \<noteq> [] \<and> arg \<noteq> STR_WITH \<and> arg \<noteq> STR_IN"
  then have \<open>arg_loop (arg # rest) props container =
      Inl (Error (''Unexpected argument "'' @ arg @ ''" in react tag.''))\<close>
    by (simp add: arg_loop.simps)
  then show \<open>compile compiler args content parents options =
      Inl (Error (''Unexpected argument "'' @ arg @ ''" in react tag.''))\<close>
    using compile_reached [OF reach] by simp
next
  assume "arg = []"
  then have "arg_loop (arg # rest) props container = Inr (props, container)"
    by (simp add: arg_loop.simps)
  then show "compile compiler args content parents options =
      Inr (emit (case args of [] \<Rightarrow> None | a # _ \<Rightarrow> Some a) props container)"
    using compile_reached [OF reach] by simp
qed

theorem unexpected_argument_throws_witness:
  \<open>loop_reaches (drop 1 [''Header'', ''with'', ''props'', ''bogus'']) None None
     [''bogus''] (Some ''props'') None
   \<and> ''bogus'' \<noteq> [] \<and> ''bogus'' \<noteq> STR_WITH \<and> ''bogus'' \<noteq> STR_IN
   \<and> compile () [''Header'', ''with'', ''props'', ''bogus''] () ()
       \<lparr>reactComponentRoot = JUndefined\<rparr> =
       Inl (Error ''Unexpected argument "bogus" in react tag.'')
   \<and> loop_reaches (drop 1 [''Header'', ''with'', ''props'', '''', ''bogus'']) None None
     ['''', ''bogus''] (Some ''props'') None
   \<and> compile () [''Header'', ''with'', ''props'', '''', ''bogus''] () ()
       \<lparr>reactComponentRoot = JUndefined\<rparr> =
       Inr (emit (Some ''Header'') (Some ''props'') None)\<close>
proof -
  have step: "loop_step [''with'', ''props'', ''bogus''] None None =
      Next [''bogus''] (Some ''props'') None"
    by (simp add: STR_WITH_def STR_OBJ_OPEN_def)
  have reach: "loop_reaches (drop 1 [''Header'', ''with'', ''props'', ''bogus'']) None None
      [''bogus''] (Some ''props'') None"
    using loop_reaches.later [OF step loop_reaches.here] by simp
  have ne: "''bogus'' \<noteq> [] \<and> ''bogus'' \<noteq> STR_WITH \<and> ''bogus'' \<noteq> STR_IN"
    by (simp add: STR_WITH_def STR_IN_def)
  have step': "loop_step [''with'', ''props'', '''', ''bogus''] None None =
      Next ['''', ''bogus''] (Some ''props'') None"
    by (simp add: STR_WITH_def STR_OBJ_OPEN_def)
  have reach': "loop_reaches (drop 1 [''Header'', ''with'', ''props'', '''', ''bogus'']) None None
      ['''', ''bogus''] (Some ''props'') None"
    using loop_reaches.later [OF step' loop_reaches.here] by simp
  note w = unexpected_argument_throws [OF reach, of "()" "()" "()"
      "\<lparr>reactComponentRoot = JUndefined\<rparr>", THEN conjunct1, THEN mp, OF ne]
  note w' = unexpected_argument_throws [OF reach', of "()" "()" "()"
      "\<lparr>reactComponentRoot = JUndefined\<rparr>", THEN conjunct2, THEN mp, OF refl]
  have c: \<open>compile () [''Header'', ''with'', ''props'', ''bogus''] () ()
       \<lparr>reactComponentRoot = JUndefined\<rparr> =
       Inl (Error ''Unexpected argument "bogus" in react tag.'')\<close>
    using w by simp
  have c': "compile () [''Header'', ''with'', ''props'', '''', ''bogus''] () ()
       \<lparr>reactComponentRoot = JUndefined\<rparr> =
       Inr (emit (Some ''Header'') (Some ''props'') None)"
    using w' by simp
  from reach ne c reach' c' show ?thesis by simp
qed

text \<open>
  Claim C9, as stated, fails where an empty-string token ends the inner loop: the inner
  loop does not consume the arguments after it, the outer loop goes on with them, and here
  it throws.
\<close>

theorem empty_token_in_object_then_error:
  \<open>loop_step [''with'', ''{'', ''a'', '''', ''b''] None None = Next [''b''] (Some ''{'') None
   \<and> compile () [''Header'', ''with'', ''{'', ''a'', '''', ''b''] () ()
       \<lparr>reactComponentRoot = JUndefined\<rparr> =
       Inl (Error ''Unexpected argument "b" in react tag.'')\<close>
  by (simp add: compile_def arg_loop.simps
        STR_WITH_def STR_IN_def STR_OBJ_OPEN_def STR_OBJ_CLOSE_def)

text \<open>
  Claim C9, amended. Let the outer loop of \<^verbatim>\<open>compile\<close> dequeue \<^verbatim>\<open>with\<close> and then \<^verbatim>\<open>{\<close>, and
  let \<open>ts\<close> be the tokens after them. If \<open>ts\<close> runs out before the brace counts balance, all
  its tokens being non-empty, the inner loop consumes all of \<open>ts\<close>, the accumulated string
  is dropped, \<^verbatim>\<open>props\<close> is the single token \<^verbatim>\<open>{\<close>, and \<^verbatim>\<open>compile\<close> returns its statement
  without an error. If instead an empty-string token is dequeued at index \<open>k\<close> before the
  counts balance, the inner loop stops there, the accumulated string is dropped,
  \<^verbatim>\<open>props\<close> is \<^verbatim>\<open>{\<close>, and the outer loop goes on with the tokens after index \<open>k\<close>.
\<close>

theorem unbalanced_object_leaves_brace:
  "((\<forall>j<length ts. ts ! j \<noteq> [] \<and> \<not> balances 1 0 ts j) \<longrightarrow>
      loop_step (STR_WITH # STR_OBJ_OPEN # ts) props container =
        Next [] (Some STR_OBJ_OPEN) container
      \<and> (loop_reaches (drop 1 args) None None (STR_WITH # STR_OBJ_OPEN # ts) props container \<longrightarrow>
          compile compiler args content parents options =
            Inr (emit (case args of [] \<Rightarrow> None | a # _ \<Rightarrow> Some a) (Some STR_OBJ_OPEN) container)))
   \<and> (k < length ts \<and> ts ! k = [] \<and> (\<forall>j<k. ts ! j \<noteq> [] \<and> \<not> balances 1 0 ts j) \<longrightarrow>
      loop_step (STR_WITH # STR_OBJ_OPEN # ts) props container =
        Next (drop (Suc k) ts) (Some STR_OBJ_OPEN) container)"
proof (intro conjI impI)
  assume quiet: "\<forall>j<length ts. ts ! j \<noteq> [] \<and> \<not> balances 1 0 ts j"
  show step: "loop_step (STR_WITH # STR_OBJ_OPEN # ts) props container =
      Next [] (Some STR_OBJ_OPEN) container"
    using obj_loop_exhausted [OF quiet] by (simp add: STR_WITH_def)
  assume reach: "loop_reaches (drop 1 args) None None (STR_WITH # STR_OBJ_OPEN # ts)
      props container"
  have "arg_loop (STR_WITH # STR_OBJ_OPEN # ts) props container =
      Inr (Some STR_OBJ_OPEN, container)"
    by (simp add: arg_loop.simps [of "STR_WITH # STR_OBJ_OPEN # ts"] arg_loop.simps [of "[]"]
          step del: loop_step.simps(2))
  then show "compile compiler args content parents options =
      Inr (emit (case args of [] \<Rightarrow> None | a # _ \<Rightarrow> Some a) (Some STR_OBJ_OPEN) container)"
    using compile_reached [OF reach] by simp
next
  assume "k < length ts \<and> ts ! k = [] \<and> (\<forall>j<k. ts ! j \<noteq> [] \<and> \<not> balances 1 0 ts j)"
  then have "obj_loop ts 1 0 STR_OBJ_OPEN = (None, drop (Suc k) ts)"
    using obj_loop_empty_token [of k ts] by blast
  then show "loop_step (STR_WITH # STR_OBJ_OPEN # ts) props container =
      Next (drop (Suc k) ts) (Some STR_OBJ_OPEN) container"
    by (simp add: STR_WITH_def)
qed

theorem unbalanced_object_leaves_brace_witness:
  "loop_reaches (drop 1 [''Header'', ''with'', ''{'', ''a'', '':'', ''{'', ''}'']) None None
        (STR_WITH # STR_OBJ_OPEN # [''a'', '':'', ''{'', ''}'']) None None
   \<and> compile () [''Header'', ''with'', ''{'', ''a'', '':'', ''{'', ''}''] () ()
        \<lparr>reactComponentRoot = JUndefined\<rparr> = Inr (emit (Some ''Header'') (Some ''{'') None)
   \<and> (1::nat) < length [''a'', '''', ''with'', ''p''] \<and> [''a'', '''', ''with'', ''p''] ! 1 = []
   \<and> loop_step (STR_WITH # STR_OBJ_OPEN # [''a'', '''', ''with'', ''p'']) None None =
        Next [''with'', ''p''] (Some ''{'') None"
proof -
  let ?ts = "[''a'', '':'', ''{'', ''}'']"
  let ?us = "[''a'', '''', ''with'', ''p'']"
  let ?args = "[''Header'', ''with'', ''{'', ''a'', '':'', ''{'', ''}'']"
  have quiet: "\<forall>j<length ?ts. ?ts ! j \<noteq> [] \<and> \<not> balances 1 0 ?ts j"
    by (simp add: balances_def STR_OBJ_OPEN_def STR_OBJ_CLOSE_def
          All_less_Suc numeral_eq_Suc)
  have reach: "loop_reaches (drop 1 ?args) None None (STR_WITH # STR_OBJ_OPEN # ?ts) None None"
    by (simp add: loop_reaches.here STR_WITH_def STR_OBJ_OPEN_def)
  have k: "(1::nat) < length ?us \<and> ?us ! 1 = []
      \<and> (\<forall>j<1. ?us ! j \<noteq> [] \<and> \<not> balances 1 0 ?us j)"
    by (simp add: balances_def STR_OBJ_OPEN_def STR_OBJ_CLOSE_def)
  note w1 = unbalanced_object_leaves_brace
      [of ?ts None None ?args "()" "()" "()" "\<lparr>reactComponentRoot = JUndefined\<rparr>" 0,
       THEN conjunct1, THEN mp, OF quiet, THEN conjunct2, THEN mp, OF reach]
  have c: "compile () ?args () () \<lparr>reactComponentRoot = JUndefined\<rparr> =
      Inr (emit (Some ''Header'') (Some ''{'') None)"
    using w1 by (simp add: STR_OBJ_OPEN_def)
  note w2 = unbalanced_object_leaves_brace [of ?us None None "[]" "()" "()" "()"
      "\<lparr>reactComponentRoot = JUndefined\<rparr>" 1, THEN conjunct2, THEN mp, OF k]
  have s: "loop_step (STR_WITH # STR_OBJ_OPEN # ?us) None None =
      Next [''with'', ''p''] (Some ''{'') None"
    using w2 by (simp add: STR_OBJ_OPEN_def del: loop_step.simps)
  from reach c k s show ?thesis by simp
qed

text \<open>
  Claim C8. Whatever the compiler, the argument list, the content and the parents are,
  \<^verbatim>\<open>compile\<close> gives the same result (the same code string, or the same error) for any two
  values of the option \<^verbatim>\<open>reactComponentRoot\<close>: the option is read into \<^verbatim>\<open>componentRoot\<close> and
  not used afterwards.
\<close>

theorem compile_ignores_componentRoot:
  "compile compiler args content parents (options\<lparr>reactComponentRoot := v\<rparr>)
     = compile compiler args content parents (options\<lparr>reactComponentRoot := w\<rparr>)"
  by (simp add: compile_def)

section \<open>Properties of the tag parser\<close>

lemma strip_quotes_quoted:
  assumes "is_quote a" and "is_quote b"
  shows "strip_quotes (a # s @ [b]) = s"
  using assms by (simp add: strip_quotes_def)

lemma strip_quotes_bare:
  assumes "match \<noteq> []" and "\<not> is_quote (hd match)" and "\<not> is_quote (last match)"
  shows "strip_quotes match = match"
  using assms by (simp add: strip_quotes_def)

text \<open>
  The handlers go on treating tokens as the first one while the captured name is the
  empty string: three string tokens, two empty literals and \<^verbatim>\<open>'bogus'\<close>, are all pushed
  with their quotes stripped.
\<close>

lemma empty_names_are_all_first:
  "on_STRING None [] [CHR 0x27, CHR 0x27] = (ReturnUndefined, Some [], [[]])
   \<and> on_STRING (Some []) [[]] [CHR 0x27, CHR 0x27] = (ReturnUndefined, Some [], [[], []])
   \<and> on_STRING (Some []) [[], []] ([CHR 0x27] @ ''bogus'' @ [CHR 0x27])
       = (ReturnUndefined, Some ''bogus'', [[], [], ''bogus''])"
  by (simp add: on_STRING_def strip_quotes_def is_quote_def Let_def)

text \<open>
  Claim C3, as stated, fails for a bare identifier: the handler of \<^verbatim>\<open>VAR\<close> tokens returns
  \<^verbatim>\<open>true\<close> for the first token, which passes it through to swig's own grammar.
\<close>

theorem first_identifier_passes_through:
  "on_VAR None [] ''Header'' = (ReturnTrue, Some ''Header'', [])
   \<and> passes_through (fst (on_VAR None [] ''Header''))"
  by (simp add: on_VAR_def)

text \<open>
  Claim C3, amended. The first token that the parser encounters is captured as the
  component name. When it is a string literal, the name is its text with a quote
  character stripped at the start and at the end if present, the name is pushed to the
  argument list, and the token is not passed through. When it is a bare identifier, the
  name is its text, nothing is pushed, and the handler signals pass-through.
\<close>

theorem first_token_is_component_name:
  "on_STRING None out match =
       (ReturnUndefined, Some (strip_quotes match), out @ [strip_quotes match])
   \<and> \<not> passes_through (fst (on_STRING None out match))
   \<and> (is_quote a \<and> is_quote b \<longrightarrow> strip_quotes (a # s @ [b]) = s)
   \<and> (match \<noteq> [] \<and> \<not> is_quote (hd match) \<and> \<not> is_quote (last match) \<longrightarrow>
        strip_quotes match = match)
   \<and> on_VAR None out match = (ReturnTrue, Some match, out)
   \<and> passes_through (fst (on_VAR None out match))"
  using strip_quotes_quoted [of a b s] strip_quotes_bare [of match]
  by (simp add: on_STRING_def on_VAR_def Let_def)

theorem first_token_is_component_name_witness:
  \<open>on_STRING None [] ''"Header"'' = (ReturnUndefined, Some ''Header'', [''Header''])
   \<and> is_quote (CHR 0x22)
   \<and> strip_quotes (CHR 0x22 # ''Header'' @ [CHR 0x22]) = ''Header''
   \<and> strip_quotes ''Header'' = ''Header''
   \<and> on_VAR None [] ''Header'' = (ReturnTrue, Some ''Header'', [])\<close>
proof -
  have q: "is_quote (CHR 0x22)" by (simp add: is_quote_def)
  have nq: "''Header'' \<noteq> [] \<and> \<not> is_quote (hd ''Header'') \<and> \<not> is_quote (last ''Header'')"
    by (simp add: is_quote_def)
  note w = first_token_is_component_name
    [of "[]" \<open>''"Header"''\<close> "CHR 0x22" "CHR 0x22" "''Header''"]
  note v = first_token_is_component_name
    [of "[]" "''Header''" "CHR 0x22" "CHR 0x22" "''Header''"]
  have s: "strip_quotes (CHR 0x22 # ''Header'' @ [CHR 0x22]) = ''Header''"
    using w q by blast
  have b: "strip_quotes ''Header'' = ''Header''"
    using v nq by blast
  have "on_STRING None [] (CHR 0x22 # ''Header'' @ [CHR 0x22]) =
      (ReturnUndefined, Some ''Header'', [''Header''])"
    using w s by simp
  moreover have "on_VAR None [] ''Header'' = (ReturnTrue, Some ''Header'', [])"
    using v by blast
  ultimately show ?thesis using q s b by simp
qed

section \<open>Properties of the component registry\<close>

lemma assign_props_map_add: "assign_props components kvs = components ++ map_of (rev kvs)"
proof (induction kvs arbitrary: components)
  case Nil
  show ?case by simp
next
  case (Cons kv kvs)
  obtain k v where kv: "kv = (k, v)" by (cases kv)
  have "assign_props components (kv # kvs) = assign_props (components(k \<mapsto> v)) kvs"
    using kv by simp
  also have "\<dots> = components(k \<mapsto> v) ++ map_of (rev kvs)"
    by (rule Cons.IH)
  also have "\<dots> = components ++ (map_of [(k, v)] ++ map_of (rev kvs))"
    by (simp add: map_add_upd_left fun_eq_iff map_add_def split: option.splits)
  also have "\<dots> = components ++ map_of (rev (kv # kvs))"
    using kv by (simp add: map_of_append)
  finally show ?case .
qed

lemma extendComponents_fst:
  "fst (extendComponents components args) =
     (if \<forall>a\<in>set args. typeof a = ''object'' then Inr ()
      else Inl (Error ''`extendComponents` expects objects to be passed in.''))"
  by (induction args arbitrary: components) auto

lemma extendComponents_snd:
  "snd (extendComponents components args) =
     foldl object_assign components (takeWhile (\<lambda>a. typeof a = ''object'') args)"
  by (induction args arbitrary: components) auto

text \<open>
  Claim C6, as stated, fails for the argument \<^verbatim>\<open>null\<close>: it is not an object, and
  \<^verbatim>\<open>components(null)\<close> throws nothing.
\<close>

theorem null_argument_is_accepted:
  "\<not> is_object (ArgNull :: string argument)
   \<and> extendComponents (Map.empty :: string \<rightharpoonup> string) [ArgNull] = (Inr (), Map.empty)"
  by simp

text \<open>
  Claim C6, amended. \<^verbatim>\<open>components(...groups)\<close> throws an error exactly when one of its
  arguments has a \<^verbatim>\<open>typeof\<close> other than \<^verbatim>\<open>object\<close>; \<^verbatim>\<open>null\<close>, whose \<^verbatim>\<open>typeof\<close> is
  \<^verbatim>\<open>object\<close>, is accepted and merges nothing. Whether it throws or not, the arguments
  before the first rejected one have been merged into the registry in order, and stay
  merged. An object is merged shallowly, property by property, a later registration of a
  key overwriting an earlier one.
\<close>

theorem extendComponents_merges_until_rejected:
  "fst (extendComponents components args) =
     (if \<forall>a\<in>set args. typeof a = ''object'' then Inr ()
      else Inl (Error ''`extendComponents` expects objects to be passed in.''))
   \<and> snd (extendComponents components args) =
       foldl object_assign components (takeWhile (\<lambda>a. typeof a = ''object'') args)
   \<and> object_assign components (ArgObject kvs) = components ++ map_of (rev kvs)
   \<and> object_assign components ArgNull = components
   \<and> snd (extendComponents components [ArgObject [(k, v)], ArgObject [(k, w)]]) k = Some w"
  by (simp add: extendComponents_fst extendComponents_snd assign_props_map_add)

theorem extendComponents_merges_until_rejected_witness:
  "fst (extendComponents [''A'' \<mapsto> (1::nat)]
          [ArgObject [(''A'', 2), (''B'', 3)], ArgNull, ArgNumber 5, ArgObject [(''C'', 4)]])
     = Inl (Error ''`extendComponents` expects objects to be passed in.'')
   \<and> snd (extendComponents [''A'' \<mapsto> (1::nat)]
          [ArgObject [(''A'', 2), (''B'', 3)], ArgNull, ArgNumber 5, ArgObject [(''C'', 4)]])
     = [''A'' \<mapsto> 1] ++ map_of (rev [(''A'', 2), (''B'', 3)])
   \<and> fst (extendComponents [''A'' \<mapsto> (1::nat)] [ArgObject [(''B'', 3)], ArgNull]) = Inr ()"
proof -
  let ?args = "[ArgObject [(''A'', 2::nat), (''B'', 3)], ArgNull, ArgNumber 5,
    ArgObject [(''C'', 4)]]"
  note w = extendComponents_merges_until_rejected
    [of "[''A'' \<mapsto> (1::nat)]" ?args "[(''A'', 2::nat), (''B'', 3)]"]
  note v = extendComponents_merges_until_rejected
    [of "[''A'' \<mapsto> (1::nat)]" "[ArgObject [(''B'', 3)], ArgNull]"]
  have a: "\<not> (\<forall>a\<in>set (?args :: nat argument list). typeof a = ''object'')" by simp
  have b: "\<forall>a\<in>set [ArgObject [(''B'', 3::nat)], ArgNull]. typeof a = ''object''" by simp
  have 1: "fst (extendComponents [''A'' \<mapsto> (1::nat)] ?args)
      = Inl (Error ''`extendComponents` expects objects to be passed in.'')"
    using w a by presburger
  have 2: "snd (extendComponents [''A'' \<mapsto> (1::nat)] ?args)
      = [''A'' \<mapsto> 1] ++ map_of (rev [(''A'', 2), (''B'', 3)])"
    using w by simp
  have 3: "fst (extendComponents [''A'' \<mapsto> (1::nat)] [ArgObject [(''B'', 3)], ArgNull]) = Inr ()"
    using v b by presburger
  from 1 2 3 show ?thesis by blast
qed

section \<open>Properties of the render bridge\<close>

lemma diagnostic_names_component:
  "sublist componentName (diagnostic componentName)
   \<and> sublist ''.components('' (diagnostic componentName)"
proof
  show "sublist componentName (diagnostic componentName)"
    unfolding diagnostic_def sublist_def by (rule exI [of _ \<open>''"''\<close>]) auto
next
  let ?pre = \<open>''"'' @ componentName @ ''" component does not exist in components supplied.''
    @ [CHR 0x0A]
    @ ''      Try extending @risd/webhook-react-tag with an object that includes ''
    @ componentName @ ''.'' @ [CHR 0x0A] @ ''      ie: require('@risd/webhook-react-tag')''\<close>
  show "sublist ''.components('' (diagnostic componentName)"
    unfolding diagnostic_def sublist_def
    by (rule exI [of _ ?pre], rule exI [of _ "'' { '' @ componentName @ '' } )''"]) simp
qed

text \<open>
  Claim C10, as stated, fails when a component is registered under the name
  \<^verbatim>\<open>hasOwnProperty\<close>: the test of line 180 then calls that component. With the host element
  \<^verbatim>\<open>'div'\<close> registered under that name, the name is an own property of the registry and
  the bridge throws a \<^verbatim>\<open>TypeError\<close> instead of rendering.
\<close>

theorem shadowed_hasOwnProperty_throws:
  "''hasOwnProperty'' \<in> dom [''hasOwnProperty'' \<mapsto> ''div'']
   \<and> renderReactComponentToString sample_runtime [''hasOwnProperty'' \<mapsto> ''div'']
        ''hasOwnProperty'' JUndefined []
      = (Inl (TypeError ''components.hasOwnProperty is not a function''), [])"
  by (simp add: renderReactComponentToString_def has_component_def sample_runtime_def)

text \<open>
  Claim C10, amended. As long as no component is registered under the name
  \<^verbatim>\<open>hasOwnProperty\<close>, the render bridge takes the render branch if and only if the requested
  name is an own property of the registry: for such a name it returns what React renders
  for the registered component, and for any other name it writes the diagnostic and
  returns \<^verbatim>\<open>undefined\<close>. This includes the names that the registry only inherits from
  \<^verbatim>\<open>Object.prototype\<close>, such as \<^verbatim>\<open>toString\<close> or \<^verbatim>\<open>constructor\<close>, which
  \<^verbatim>\<open>components[componentName]\<close> would find.
\<close>

theorem bridge_renders_own_components_only:
  assumes "components ''hasOwnProperty'' = None"
  shows "has_component rt components componentName = Inr (componentName \<in> dom components)
    \<and> (\<forall>c. components componentName = Some c \<longrightarrow>
          renderReactComponentToString rt components componentName props console =
            (case rt_render rt (Component c) props of
               Inl e \<Rightarrow> (Inl e, console)
             | Inr markup \<Rightarrow> (Inr (Some markup), console)))
    \<and> (components componentName = None \<longrightarrow>
          renderReactComponentToString rt components componentName props console =
            (Inr None, console @ [diagnostic componentName]))
    \<and> (components componentName = None \<and> componentName \<in> set object_prototype_keys \<longrightarrow>
          get_component components componentName = Inherited componentName)"
  using assms
  by (auto simp: has_component_def renderReactComponentToString_def get_component_def domIff
           split: sum.splits)

theorem bridge_renders_own_components_only_witness:
  "renderReactComponentToString sample_runtime [''Header'' \<mapsto> ''div''] ''Header'' JUndefined []
     = (Inr (Some ''<b>hi</b>''), [])
   \<and> renderReactComponentToString sample_runtime [''Header'' \<mapsto> ''div''] ''toString'' JUndefined []
     = (Inr None, [diagnostic ''toString''])
   \<and> get_component [''Header'' \<mapsto> ''div''] ''toString'' = Inherited ''toString''
   \<and> renderReactComponentToString sample_runtime [''Header'' \<mapsto> ''div''] ''constructor'' JUndefined []
     = (Inr None, [diagnostic ''constructor''])"
proof -
  let ?reg = "[''Header'' \<mapsto> ''div'']"
  have h: "?reg ''hasOwnProperty'' = None" by simp
  note w = bridge_renders_own_components_only [of ?reg sample_runtime _ JUndefined "[]", OF h]
  have own: "?reg ''Header'' = Some ''div''" by simp
  have t: "?reg ''toString'' = None \<and> ''toString'' \<in> set object_prototype_keys"
    by (simp add: object_prototype_keys_def)
  have c: "?reg ''constructor'' = None" by simp
  have 1: "renderReactComponentToString sample_runtime ?reg ''Header'' JUndefined []
      = (Inr (Some ''<b>hi</b>''), [])"
    using w [of "''Header''"] own by (simp add: sample_runtime_def)
  have 2: "renderReactComponentToString sample_runtime ?reg ''toString'' JUndefined []
      = (Inr None, [diagnostic ''toString''])"
    using w [of "''toString''"] t by simp
  have 3: "get_component ?reg ''toString'' = Inherited ''toString''"
    using w [of "''toString''"] t by blast
  have 4: "renderReactComponentToString sample_runtime ?reg ''constructor'' JUndefined []
      = (Inr None, [diagnostic ''constructor''])"
    using w [of "''constructor''"] c by simp
  from 1 2 3 4 show ?thesis by blast
qed

section \<open>Properties of the emitted code\<close>




lemma sample_bridge_found:
  assumes "components ''hasOwnProperty'' = None" and "components componentName = Some c"
  shows "renderReactComponentToString sample_runtime components componentName props console
    = (Inr (Some ''<b>hi</b>''), console)"
  using assms
  by (simp add: renderReactComponentToString_def has_component_def get_component_def
        sample_runtime_def domIff)



lemma compile_name_only:
  "compile compiler [n] content parents options = Inr (emit (Some n) None None)"
  by (simp add: compile_def arg_loop.simps)



text \<open>
  Claim C5 does not hold of the code: \<^verbatim>\<open>container[key].replace('"', '&quot;')\<close> has a string
  pattern and escapes the first double quote of the value only. For the container
  \<^verbatim>\<open>{ tag: 'div', title: 'a"b"c' }\<close> the attribute written is \<^verbatim>\<open>title="a&quot;b"c"\<close>, where
  escaping every double quote, as line 113 does for the props, would write
  \<^verbatim>\<open>title="a&quot;b&quot;c"\<close>.
\<close>

theorem only_first_quote_of_attribute_is_escaped:
  \<open>attribute_loop (JObj [(''tag'', JStr ''div''), (''title'', JStr ''a"b"c'')])
      (own_properties (JObj [(''tag'', JStr ''div''), (''title'', JStr ''a"b"c'')])) ''<div''
    = Inr ''<div title="a&quot;b"c"''
   \<and> emitted_function sample_runtime [''Header'' \<mapsto> ''div''] ''Header'' JUndefined
        (JObj [(''tag'', JStr ''div''), (''title'', JStr ''a"b"c'')]) []
      = (Inr (''<div title="a&quot;b"c" data-react-component="Header" data-react-props="{}">''
              @ ''<b>hi</b></div>''), [])
   \<and> replace_all_quotes ''a"b"c'' = ''a&quot;b&quot;c''\<close>
proof -
  let ?c = \<open>JObj [(''tag'', JStr ''div''), (''title'', JStr ''a"b"c'')]\<close>
  have a: \<open>attribute_loop ?c (own_properties ?c) ''<div'' = Inr ''<div title="a&quot;b"c"''\<close>
    by simp
  have b: "renderReactComponentToString sample_runtime [''Header'' \<mapsto> ''div''] ''Header''
      (JObj []) [] = (Inr (Some ''<b>hi</b>''), [])"
    by (rule sample_bridge_found) simp_all
  have e: \<open>emitted_function sample_runtime [''Header'' \<mapsto> ''div''] ''Header'' JUndefined ?c []
      = (Inr (''<div title="a&quot;b"c" data-react-component="Header" data-react-props="{}">''
              @ ''<b>hi</b></div>''), [])\<close>
    unfolding emitted_function_def Let_def using a b by simp
  have r: \<open>replace_all_quotes ''a"b"c'' = ''a&quot;b&quot;c''\<close> by simp
  from a e r show ?thesis by blast
qed

text \<open>
  Claim C7 does not hold of the code: for a name that is not registered the bridge writes
  the diagnostic and returns \<^verbatim>\<open>undefined\<close> without throwing, but the emitted code appends
  that value to a string, so the fragment carries the text \<^verbatim>\<open>undefined\<close> between the
  container's tags. The statement below is for the tag \<^verbatim>\<open>react 'n'\<close> without clauses, in a
  registry that has no entry named \<^verbatim>\<open>hasOwnProperty\<close>.
\<close>

theorem missing_component_renders_undefined_text:
  assumes "components ''hasOwnProperty'' = None" and "components n = None"
  shows \<open>compile compiler [n] content parents options = Inr (emit (Some n) None None)
    \<and> renderReactComponentToString rt components n (JObj []) console
        = (Inr None, console @ [diagnostic n])
    \<and> emitted_function rt components n JUndefined JUndefined console
        = (Inr (''<div data-react-component="'' @ n @ ''" data-react-props="{}">''
                @ ''undefined'' @ ''</div>''), console @ [diagnostic n])\<close>
proof -
  have b: "renderReactComponentToString rt components n (JObj []) console
      = (Inr None, console @ [diagnostic n])"
    using assms by (simp add: renderReactComponentToString_def has_component_def domIff)
  have e: \<open>emitted_function rt components n JUndefined JUndefined console
      = (Inr (''<div data-react-component="'' @ n @ ''" data-react-props="{}">''
              @ ''undefined'' @ ''</div>''), console @ [diagnostic n])\<close>
    unfolding emitted_function_def Let_def
    using b by simp
  show ?thesis by (intro conjI compile_name_only b e)
qed

theorem missing_component_renders_undefined_text_witness:
  \<open>emitted_function sample_runtime Map.empty ''Missing'' JUndefined JUndefined []
      = (Inr ''<div data-react-component="Missing" data-react-props="{}">undefined</div>'',
         [diagnostic ''Missing''])\<close>
proof -
  have 1: "(Map.empty :: string \<rightharpoonup> string) ''hasOwnProperty'' = None" by simp
  have 2: "(Map.empty :: string \<rightharpoonup> string) ''Missing'' = None" by simp
  note w = missing_component_renders_undefined_text
    [of Map.empty "''Missing''" "()" "()" "()" "\<lparr>reactComponentRoot = JUndefined\<rparr>"
        sample_runtime "[]", OF 1 2]
  show ?thesis using w [THEN conjunct2, THEN conjunct2] by simp
qed

end
